theory Spec2Isabelle
  imports Main "HOL-Library.Word"
begin

section \<open>Common conventions\<close>

text \<open>
  The embedding follows \<^verbatim>\<open>terminal/Grid.h\<close> and \<^verbatim>\<open>terminal/Sequencer.h\<close>.
  A C++ \<^verbatim>\<open>int\<close> is an \<^typ>\<open>int\<close>: the number of lines of a deque, the dimensions of a
  screen and the coordinates that pass an assertion stay far inside the 32-bit range.
  Where a line number is an argument that the caller chooses freely (\<open>toAbsoluteLine\<close>,
  \<open>toRelativeLine\<close>), the sum may leave that range, and the wrap-around of the 32-bit
  arithmetic is written out with \<open>wrap32\<close>.  A \<^verbatim>\<open>size_t\<close> index is a \<^typ>\<open>nat\<close>,
  \<^verbatim>\<open>char32_t\<close> is a 32-bit word, \<^verbatim>\<open>uint8_t\<close> and \<^verbatim>\<open>char\<close> are 8-bit words.  A failed
  \<^verbatim>\<open>assert\<close> and an access outside a container are results of their own, so that no
  function of the model silently reads an unspecified value.
\<close>

text \<open>The value of a 32-bit two's complement \<^verbatim>\<open>int\<close> that a sum or difference wraps to.\<close>

definition wrap32 :: "int \<Rightarrow> int" where
  "wrap32 x = (x + 2147483648) mod 4294967296 - 2147483648"

datatype error = AssertionFailed | OutOfRange

type_synonym char32_t = "32 word"

text \<open>\<^verbatim>\<open>v[i]\<close> on a \<^verbatim>\<open>std::vector\<close> or \<^verbatim>\<open>std::basic_string\<close>: defined for \<open>i < v.size()\<close> only.\<close>

definition vec_at :: "'a list \<Rightarrow> nat \<Rightarrow> error + 'a" where
  "vec_at v i = (if i < length v then Inr (v ! i) else Inl OutOfRange)"

text \<open>
  Modelled from the spec: \<^verbatim>\<open>crispy::ascending\<close> (\<^verbatim>\<open>crispy/utils.h\<close> is outside the
  files embedded here); the bounds checks read "Asserts bounds", that is \<open>a \<le> b \<le> c\<close>.
\<close>

definition ascending :: "int \<Rightarrow> int \<Rightarrow> int \<Rightarrow> bool" where
  "ascending a b c = (a \<le> b \<and> b \<le> c)"

text \<open>
  Modelled from the spec: \<^verbatim>\<open>crispy::times\<close> (\<^verbatim>\<open>crispy/times.h\<close> is outside the files
  embedded here).  \<^verbatim>\<open>times(start, count)\<close> enumerates \<open>count\<close> consecutive integers from
  \<open>start\<close> on, \<^verbatim>\<open>times(count)\<close> starts at 0; every caller below passes a
  non-negative count.
\<close>

definition crispy_times :: "int \<Rightarrow> nat \<Rightarrow> int list" where
  "crispy_times start count = map (\<lambda>k. start + int k) [0..<count]"

text \<open>
  Modelled from the spec: \<^verbatim>\<open>crispy::indexed\<close> (\<^verbatim>\<open>crispy/indexed.h\<close> is outside the
  files embedded here).  \<^verbatim>\<open>indexed(range, start)\<close> pairs the elements of the range with
  the running index \<open>start\<close>, \<open>start + 1\<close>, ...
\<close>

fun crispy_indexed :: "'a list \<Rightarrow> int \<Rightarrow> (int \<times> 'a) list" where
  "crispy_indexed [] n = []"
| "crispy_indexed (x # xs) n = (n, x) # crispy_indexed xs (n + 1)"


section \<open>Cells (\<^verbatim>\<open>Grid.h\<close>)\<close>

text \<open>
  Modelled from the spec: \<^verbatim>\<open>Color\<close> (\<^verbatim>\<open>terminal/Color.h\<close> is outside the files embedded
  here): a variant over default, indexed, bright indexed and RGB colours, compared
  structurally.
\<close>

datatype Color =
    DefaultColor
  | IndexedColor nat
  | BrightColor nat
  | RGBColor nat nat nat

text \<open>\<^verbatim>\<open>CellFlags\<close> is a bit set over \<^verbatim>\<open>uint32_t\<close>.\<close>

type_synonym CellFlags = "32 word"

record GraphicsAttributes =
  foregroundColor :: Color
  backgroundColor :: Color
  underlineColor :: Color
  styles :: CellFlags

text \<open>The default member initialisers of \<^verbatim>\<open>GraphicsAttributes\<close>.\<close>

definition GraphicsAttributes_default :: GraphicsAttributes where
  "GraphicsAttributes_default =
     \<lparr>foregroundColor = DefaultColor, backgroundColor = DefaultColor,
      underlineColor = DefaultColor, styles = 0\<rparr>"

text \<open>\<^verbatim>\<open>operator==(GraphicsAttributes const&, GraphicsAttributes const&)\<close>.\<close>

definition GraphicsAttributes_eq :: "GraphicsAttributes \<Rightarrow> GraphicsAttributes \<Rightarrow> bool" where
  "GraphicsAttributes_eq a b =
     (backgroundColor a = backgroundColor b
      \<and> foregroundColor a = foregroundColor b
      \<and> styles a = styles b
      \<and> underlineColor a = underlineColor b)"

text \<open>
  Modelled from the spec: \<^verbatim>\<open>HyperlinkRef\<close> and \<^verbatim>\<open>ImageFragment\<close> (\<^verbatim>\<open>terminal/Hyperlink.h\<close>
  and \<^verbatim>\<open>terminal/Image.h\<close> are outside the files embedded here).  A hyperlink reference
  is a shared handle that may be null, an image fragment a position within a decoded
  image; both are opaque here and stand for their identity.
\<close>

type_synonym HyperlinkRef = "nat option"

type_synonym ImageFragment = nat

text \<open>
  The private members of \<^verbatim>\<open>class Cell\<close>, with \<^verbatim>\<open>LIBTERMINAL_HYPERLINKS\<close> and
  \<^verbatim>\<open>LIBTERMINAL_IMAGES\<close> defined.  \<open>width_m\<close> is the member \<^verbatim>\<open>width_\<close>, a \<^verbatim>\<open>uint8_t\<close>.
\<close>

record Cell =
  codepoints :: "char32_t list"
  width_m :: "8 word"
  attributes :: GraphicsAttributes
  hyperlink :: HyperlinkRef
  imageFragment :: "ImageFragment option"

definition MaxCodepoints :: nat where
  "MaxCodepoints = 9"

text \<open>
  \<^verbatim>\<open>Cell(char32_t, GraphicsAttributes)\<close>.  \<^verbatim>\<open>unicode::width\<close> belongs to another library
  and is the parameter \<open>uw\<close> throughout; its \<^verbatim>\<open>int\<close> result is narrowed to \<^verbatim>\<open>uint8_t\<close>
  when stored.
\<close>

definition Cell_new :: "(char32_t \<Rightarrow> int) \<Rightarrow> char32_t \<Rightarrow> GraphicsAttributes \<Rightarrow> Cell" where
  "Cell_new uw cp attrib =
     (let c = \<lparr>codepoints = [], width_m = 1, attributes = attrib,
               hyperlink = None, imageFragment = None\<rparr>
      in if cp \<noteq> 0
         then c\<lparr>codepoints := [cp], width_m := word_of_int (max (uw cp) 1)\<rparr>
         else c)"

text \<open>\<^verbatim>\<open>Cell()\<close>.\<close>

definition Cell_empty :: Cell where
  "Cell_empty =
     \<lparr>codepoints = [], width_m = 1, attributes = GraphicsAttributes_default,
      hyperlink = None, imageFragment = None\<rparr>"

text \<open>\<^verbatim>\<open>Cell::reset(GraphicsAttributes)\<close>.\<close>

definition reset :: "GraphicsAttributes \<Rightarrow> Cell \<Rightarrow> Cell" where
  "reset attrs c =
     c\<lparr>attributes := attrs, width_m := 1, hyperlink := None, codepoints := [],
       imageFragment := None\<rparr>"

text \<open>\<^verbatim>\<open>Cell::reset(GraphicsAttributes, HyperlinkRef const&)\<close>.\<close>

definition reset_hyperlink :: "GraphicsAttributes \<Rightarrow> HyperlinkRef \<Rightarrow> Cell \<Rightarrow> Cell" where
  "reset_hyperlink attrs h c =
     c\<lparr>attributes := attrs, width_m := 1, codepoints := [], hyperlink := h,
       imageFragment := None\<rparr>"

text \<open>\<^verbatim>\<open>Cell::codepoint(size_t)\<close>: \<^verbatim>\<open>codepoints_.at(i)\<close>, respectively \<^verbatim>\<open>codepoints_[i]\<close>.\<close>

definition codepoint :: "Cell \<Rightarrow> nat \<Rightarrow> error + char32_t" where
  "codepoint c i = vec_at (codepoints c) i"

definition codepointCount :: "Cell \<Rightarrow> int" where
  "codepointCount c = int (length (codepoints c))"

definition Cell_width :: "Cell \<Rightarrow> int" where
  "Cell_width c = uint (width_m c)"

text \<open>\<^verbatim>\<open>Cell::setImage(ImageFragment)\<close> and \<^verbatim>\<open>Cell::setImage(ImageFragment, HyperlinkRef)\<close>.\<close>

definition setImage :: "ImageFragment \<Rightarrow> Cell \<Rightarrow> Cell" where
  "setImage frag c = c\<lparr>imageFragment := Some frag, width_m := 1, codepoints := []\<rparr>"

definition setImage_hyperlink :: "ImageFragment \<Rightarrow> HyperlinkRef \<Rightarrow> Cell \<Rightarrow> Cell" where
  "setImage_hyperlink frag h c = (setImage frag c)\<lparr>hyperlink := h\<rparr>"

text \<open>\<^verbatim>\<open>Cell::setCharacter(char32_t)\<close>.\<close>

definition setCharacter :: "(char32_t \<Rightarrow> int) \<Rightarrow> char32_t \<Rightarrow> Cell \<Rightarrow> Cell" where
  "setCharacter uw cp c =
     (let c1 = c\<lparr>imageFragment := None\<rparr>
      in if cp \<noteq> 0
         then c1\<lparr>codepoints := [cp], width_m := word_of_int (max (uw cp) 1)\<rparr>
         else c1\<lparr>codepoints := [], width_m := 1\<rparr>)"

text \<open>\<^verbatim>\<open>Cell::setWidth(int)\<close>: the argument is narrowed to \<^verbatim>\<open>uint8_t\<close>.\<close>

definition setWidth :: "int \<Rightarrow> Cell \<Rightarrow> Cell" where
  "setWidth w c = c\<lparr>width_m := word_of_int w\<rparr>"

text \<open>
  \<^verbatim>\<open>Cell::appendCharacter(char32_t)\<close>, returning the \<^verbatim>\<open>int\<close> result and the cell after the
  call.  \<open>AllowWidthChange\<close> is the local constant of the source.
\<close>

definition AllowWidthChange :: bool where
  "AllowWidthChange = False"

definition appended_width :: "(char32_t \<Rightarrow> int) \<Rightarrow> char32_t \<Rightarrow> int" where
  "appended_width uw cp =
     (if cp = 0xFE0E then 1 else if cp = 0xFE0F then 2 else uw cp)"

definition appendCharacter :: "(char32_t \<Rightarrow> int) \<Rightarrow> char32_t \<Rightarrow> Cell \<Rightarrow> int \<times> Cell" where
  "appendCharacter uw cp c =
     (let c1 = c\<lparr>imageFragment := None\<rparr>
      in if length (codepoints c1) < MaxCodepoints
         then (let c2 = c1\<lparr>codepoints := codepoints c1 @ [cp]\<rparr>;
                   w = appended_width uw cp
               in if w \<noteq> uint (width_m c2) \<and> AllowWidthChange
                  then (w - uint (width_m c2), c2\<lparr>width_m := word_of_int w\<rparr>)
                  else (0, c2))
         else (0, c1))"

text \<open>\<^verbatim>\<open>Cell::setAttributes\<close> and \<^verbatim>\<open>Cell::setHyperlink\<close>.\<close>

definition setAttributes :: "GraphicsAttributes \<Rightarrow> Cell \<Rightarrow> Cell" where
  "setAttributes attrs c = c\<lparr>attributes := attrs\<rparr>"

definition setHyperlink :: "HyperlinkRef \<Rightarrow> Cell \<Rightarrow> Cell" where
  "setHyperlink h c = c\<lparr>hyperlink := h\<rparr>"

text \<open>
  Every way of making a cell, and every member function that changes one, as data: a cell
  of a running program is the result of one constructor call followed by a sequence of
  mutator calls.
\<close>

datatype Cell_ctor =
    NewCell char32_t GraphicsAttributes
  | NewEmptyCell

datatype Cell_op =
    Reset GraphicsAttributes
  | ResetHyperlink GraphicsAttributes HyperlinkRef
  | SetImage ImageFragment
  | SetImageHyperlink ImageFragment HyperlinkRef
  | SetCharacter char32_t
  | SetWidth int
  | AppendCharacter char32_t
  | SetAttributes GraphicsAttributes
  | SetHyperlink HyperlinkRef

fun construct :: "(char32_t \<Rightarrow> int) \<Rightarrow> Cell_ctor \<Rightarrow> Cell" where
  "construct uw (NewCell cp attrib) = Cell_new uw cp attrib"
| "construct uw NewEmptyCell = Cell_empty"

fun apply_op :: "(char32_t \<Rightarrow> int) \<Rightarrow> Cell \<Rightarrow> Cell_op \<Rightarrow> Cell" where
  "apply_op uw c (Reset attrs) = reset attrs c"
| "apply_op uw c (ResetHyperlink attrs h) = reset_hyperlink attrs h c"
| "apply_op uw c (SetImage frag) = setImage frag c"
| "apply_op uw c (SetImageHyperlink frag h) = setImage_hyperlink frag h c"
| "apply_op uw c (SetCharacter cp) = setCharacter uw cp c"
| "apply_op uw c (SetWidth w) = setWidth w c"
| "apply_op uw c (AppendCharacter cp) = snd (appendCharacter uw cp c)"
| "apply_op uw c (SetAttributes attrs) = setAttributes attrs c"
| "apply_op uw c (SetHyperlink h) = setHyperlink h c"

definition run_ops :: "(char32_t \<Rightarrow> int) \<Rightarrow> Cell_ctor \<Rightarrow> Cell_op list \<Rightarrow> Cell" where
  "run_ops uw k ops = foldl (apply_op uw) (construct uw k) ops"

text \<open>
  \<^verbatim>\<open>operator==(Cell const&, Cell const&)\<close>.  The loop runs over
  \<^verbatim>\<open>crispy::times(a.codepointCount())\<close> and leaves at the first difference.
\<close>

fun codepoints_loop :: "Cell \<Rightarrow> Cell \<Rightarrow> int list \<Rightarrow> error + bool" where
  "codepoints_loop a b [] = Inr True"
| "codepoints_loop a b (i # rest) =
     (case codepoint a (nat i) of
        Inl e \<Rightarrow> Inl e
      | Inr x \<Rightarrow>
          (case codepoint b (nat i) of
             Inl e \<Rightarrow> Inl e
           | Inr y \<Rightarrow> if x \<noteq> y then Inr False else codepoints_loop a b rest))"

definition Cell_eq :: "Cell \<Rightarrow> Cell \<Rightarrow> error + bool" where
  "Cell_eq a b =
     (if codepointCount a \<noteq> codepointCount b then Inr False
      else if \<not> GraphicsAttributes_eq (attributes a) (attributes b) then Inr False
      else codepoints_loop a b (crispy_times 0 (nat (codepointCount a))))"


section \<open>Modes (\<^verbatim>\<open>Sequencer.h\<close>)\<close>

datatype AnsiMode =
    KeyboardAction
  | Insert
  | SendReceive
  | AutomaticNewLine

text \<open>The enumerator values of \<^verbatim>\<open>enum class AnsiMode\<close>, all of them written in the source.\<close>

fun AnsiMode_value :: "AnsiMode \<Rightarrow> int" where
  "AnsiMode_value KeyboardAction = 2"
| "AnsiMode_value Insert = 4"
| "AnsiMode_value SendReceive = 12"
| "AnsiMode_value AutomaticNewLine = 20"

fun toAnsiModeNum :: "AnsiMode \<Rightarrow> int" where
  "toAnsiModeNum KeyboardAction = 2"
| "toAnsiModeNum Insert = 4"
| "toAnsiModeNum SendReceive = 12"
| "toAnsiModeNum AutomaticNewLine = 20"

text \<open>
  \<^verbatim>\<open>isValidAnsiMode(int)\<close>: the number is cast to the enumeration, which keeps its value,
  and compared with the case labels in their order.
\<close>

definition isValidAnsiMode :: "int \<Rightarrow> bool" where
  "isValidAnsiMode mode =
     (if mode = AnsiMode_value KeyboardAction then True
      else if mode = AnsiMode_value Insert then True
      else if mode = AnsiMode_value SendReceive then True
      else if mode = AnsiMode_value AutomaticNewLine then True
      else False)"

datatype DECMode =
    UseApplicationCursorKeys
  | DesignateCharsetUSASCII
  | Columns132
  | SmoothScroll
  | ReverseVideo
  | MouseProtocolX10
  | MouseProtocolNormalTracking
  | MouseProtocolHighlightTracking
  | MouseProtocolButtonTracking
  | MouseProtocolAnyEventTracking
  | SaveCursor
  | ExtendedAltScreen
  | Origin
  | AutoWrap
  | PrinterExtend
  | LeftRightMargin
  | ShowToolbar
  | BlinkingCursor
  | VisibleCursor
  | ShowScrollbar
  | AllowColumns80to132
  | DebugLogging
  | UseAlternateScreen
  | BracketedPaste
  | FocusTracking
  | SixelScrolling
  | UsePrivateColorRegisters
  | MouseExtended
  | MouseSGR
  | MouseURXVT
  | MouseAlternateScroll
  | BatchedRendering
  | TextReflow

text \<open>
  The enumerator values of \<^verbatim>\<open>enum class DECMode\<close>.  The first 27 enumerators carry no
  initialiser in the source, so they count up from 0 in the order of their declaration;
  the last six are written \<^verbatim>\<open>= 1005\<close>, \<^verbatim>\<open>= 1006\<close>, \<^verbatim>\<open>= 1015\<close>, \<^verbatim>\<open>= 1007\<close>, \<^verbatim>\<open>= 2026\<close>
  and \<^verbatim>\<open>= 2027\<close>.
\<close>

fun DECMode_value :: "DECMode \<Rightarrow> int" where
  "DECMode_value UseApplicationCursorKeys = 0"
| "DECMode_value DesignateCharsetUSASCII = 1"
| "DECMode_value Columns132 = 2"
| "DECMode_value SmoothScroll = 3"
| "DECMode_value ReverseVideo = 4"
| "DECMode_value MouseProtocolX10 = 5"
| "DECMode_value MouseProtocolNormalTracking = 6"
| "DECMode_value MouseProtocolHighlightTracking = 7"
| "DECMode_value MouseProtocolButtonTracking = 8"
| "DECMode_value MouseProtocolAnyEventTracking = 9"
| "DECMode_value SaveCursor = 10"
| "DECMode_value ExtendedAltScreen = 11"
| "DECMode_value Origin = 12"
| "DECMode_value AutoWrap = 13"
| "DECMode_value PrinterExtend = 14"
| "DECMode_value LeftRightMargin = 15"
| "DECMode_value ShowToolbar = 16"
| "DECMode_value BlinkingCursor = 17"
| "DECMode_value VisibleCursor = 18"
| "DECMode_value ShowScrollbar = 19"
| "DECMode_value AllowColumns80to132 = 20"
| "DECMode_value DebugLogging = 21"
| "DECMode_value UseAlternateScreen = 22"
| "DECMode_value BracketedPaste = 23"
| "DECMode_value FocusTracking = 24"
| "DECMode_value SixelScrolling = 25"
| "DECMode_value UsePrivateColorRegisters = 26"
| "DECMode_value MouseExtended = 1005"
| "DECMode_value MouseSGR = 1006"
| "DECMode_value MouseURXVT = 1015"
| "DECMode_value MouseAlternateScroll = 1007"
| "DECMode_value BatchedRendering = 2026"
| "DECMode_value TextReflow = 2027"

text \<open>\<^verbatim>\<open>toDECModeNum(DECMode)\<close>, in the order of the \<^verbatim>\<open>switch\<close>.\<close>

fun toDECModeNum :: "DECMode \<Rightarrow> int" where
  "toDECModeNum UseApplicationCursorKeys = 1"
| "toDECModeNum DesignateCharsetUSASCII = 2"
| "toDECModeNum Columns132 = 3"
| "toDECModeNum SmoothScroll = 4"
| "toDECModeNum ReverseVideo = 5"
| "toDECModeNum Origin = 6"
| "toDECModeNum AutoWrap = 7"
| "toDECModeNum MouseProtocolX10 = 9"
| "toDECModeNum ShowToolbar = 10"
| "toDECModeNum BlinkingCursor = 12"
| "toDECModeNum PrinterExtend = 19"
| "toDECModeNum VisibleCursor = 25"
| "toDECModeNum ShowScrollbar = 30"
| "toDECModeNum AllowColumns80to132 = 40"
| "toDECModeNum DebugLogging = 46"
| "toDECModeNum UseAlternateScreen = 47"
| "toDECModeNum LeftRightMargin = 69"
| "toDECModeNum MouseProtocolNormalTracking = 1000"
| "toDECModeNum MouseProtocolHighlightTracking = 1001"
| "toDECModeNum MouseProtocolButtonTracking = 1002"
| "toDECModeNum MouseProtocolAnyEventTracking = 1003"
| "toDECModeNum SaveCursor = 1048"
| "toDECModeNum ExtendedAltScreen = 1049"
| "toDECModeNum BracketedPaste = 2004"
| "toDECModeNum FocusTracking = 1004"
| "toDECModeNum SixelScrolling = 80"
| "toDECModeNum UsePrivateColorRegisters = 1070"
| "toDECModeNum MouseExtended = 1005"
| "toDECModeNum MouseSGR = 1006"
| "toDECModeNum MouseURXVT = 1015"
| "toDECModeNum MouseAlternateScroll = 1007"
| "toDECModeNum BatchedRendering = 2026"
| "toDECModeNum TextReflow = 2027"

text \<open>
  The case labels of \<^verbatim>\<open>isValidDECMode\<close>, in the order of the \<^verbatim>\<open>switch\<close>.
\<close>

definition isValidDECMode_labels :: "DECMode list" where
  "isValidDECMode_labels =
     [UseApplicationCursorKeys, DesignateCharsetUSASCII, Columns132, SmoothScroll,
      ReverseVideo, MouseProtocolX10, MouseProtocolNormalTracking,
      MouseProtocolHighlightTracking, MouseProtocolButtonTracking,
      MouseProtocolAnyEventTracking, SaveCursor, ExtendedAltScreen, Origin, AutoWrap,
      PrinterExtend, LeftRightMargin, ShowToolbar, BlinkingCursor, VisibleCursor,
      ShowScrollbar, AllowColumns80to132, DebugLogging, UseAlternateScreen,
      BracketedPaste, FocusTracking, SixelScrolling, UsePrivateColorRegisters,
      MouseExtended, MouseSGR, MouseURXVT, MouseAlternateScroll, BatchedRendering,
      TextReflow]"

text \<open>
  \<^verbatim>\<open>isValidDECMode(int)\<close>: \<^verbatim>\<open>static_cast<DECMode>(_mode)\<close> keeps the number as the value of
  the enumeration, and the \<^verbatim>\<open>switch\<close> returns true when that value is the value of one
  of its case labels.
\<close>

fun switch_matches :: "int \<Rightarrow> DECMode list \<Rightarrow> bool" where
  "switch_matches v [] = False"
| "switch_matches v (label # rest) =
     (if v = DECMode_value label then True else switch_matches v rest)"

definition isValidDECMode :: "int \<Rightarrow> bool" where
  "isValidDECMode mode = switch_matches mode isValidDECMode_labels"


section \<open>Sequences (\<^verbatim>\<open>Sequencer.h\<close>)\<close>

text \<open>
  Modelled from the spec: \<^verbatim>\<open>FunctionCategory\<close> and \<^verbatim>\<open>FunctionSelector\<close>
  (\<^verbatim>\<open>terminal/Functions.h\<close> is outside the files embedded here).  The categories are
  C0, C1, ESC, CSI, OSC and DCS; a selector is (category, leader, parameter count,
  intermediate, final byte), where an OSC selector carries its numeric prefix in the
  place of the parameter count.
\<close>

datatype FunctionCategory = C0 | C1 | ESC | CSI | OSC | DCS

record FunctionSelector =
  category :: FunctionCategory
  leader :: "8 word"
  argc :: int
  intermediate :: "8 word"
  finalSymbol :: "8 word"

text \<open>
  The private members of \<^verbatim>\<open>class Sequence\<close>; the field \<open>x_m\<close> is the member \<^verbatim>\<open>x_\<close>.
  \<^verbatim>\<open>Parameter\<close> is \<^verbatim>\<open>int\<close> and \<^verbatim>\<open>ParameterList\<close> a vector of vectors of parameters.
\<close>

type_synonym Parameter = int

record Sequence =
  category_m :: FunctionCategory
  leaderSymbol_m :: "8 word"
  parameters_m :: "Parameter list list"
  intermediateCharacters_m :: "8 word list"
  finalChar_m :: "8 word"
  dataString_m :: "8 word list"

text \<open>
  \<^verbatim>\<open>Sequence()\<close>: the parameter list is resized and cleared again, the other members take
  their default initialisers; \<^verbatim>\<open>category_\<close> has none, so the value it starts with is the
  argument \<open>cat\<close>.
\<close>

definition Sequence_new :: "FunctionCategory \<Rightarrow> Sequence" where
  "Sequence_new cat =
     \<lparr>category_m = cat, leaderSymbol_m = 0, parameters_m = [],
      intermediateCharacters_m = [], finalChar_m = 0, dataString_m = []\<rparr>"

definition clear :: "Sequence \<Rightarrow> Sequence" where
  "clear s =
     s\<lparr>category_m := C0, leaderSymbol_m := 0, intermediateCharacters_m := [],
       parameters_m := [], finalChar_m := 0, dataString_m := []\<rparr>"

definition setCategory :: "FunctionCategory \<Rightarrow> Sequence \<Rightarrow> Sequence" where
  "setCategory cat s = s\<lparr>category_m := cat\<rparr>"

definition parameterCount :: "Sequence \<Rightarrow> nat" where
  "parameterCount s = length (parameters_m s)"

text \<open>\<^verbatim>\<open>Sequence::selector()\<close>.\<close>

definition selector :: "Sequence \<Rightarrow> error + FunctionSelector" where
  "selector s =
     (case category_m s of
        OSC \<Rightarrow>
          (case vec_at (parameters_m s) 0 of
             Inl e \<Rightarrow> Inl e
           | Inr p \<Rightarrow>
               (case vec_at p 0 of
                  Inl e \<Rightarrow> Inl e
                | Inr v \<Rightarrow>
                    Inr \<lparr>category = category_m s, leader = 0, argc = v,
                         intermediate = 0, finalSymbol = 0\<rparr>))
      | _ \<Rightarrow>
          (let i = (if length (intermediateCharacters_m s) = 1
                    then intermediateCharacters_m s ! 0 else 0)
           in Inr \<lparr>category = category_m s, leader = leaderSymbol_m s,
                   argc = int (length (parameters_m s)), intermediate = i,
                   finalSymbol = finalChar_m s\<rparr>))"

text \<open>
  \<^verbatim>\<open>Sequence::param_opt(size_t)\<close>: \<^verbatim>\<open>&&\<close> evaluates \<^verbatim>\<open>parameters_[_index][0]\<close> only when
  the index is below the size of the list.
\<close>

definition param_opt :: "Sequence \<Rightarrow> nat \<Rightarrow> error + Parameter option" where
  "param_opt s i =
     (if i < length (parameters_m s)
      then (case vec_at (parameters_m s ! i) 0 of
              Inl e \<Rightarrow> Inl e
            | Inr v \<Rightarrow> if v \<noteq> 0 then Inr (Some v) else Inr None)
      else Inr None)"

text \<open>\<^verbatim>\<open>std::optional::value_or\<close>.\<close>

definition value_or :: "'a option \<Rightarrow> 'a \<Rightarrow> 'a" where
  "value_or opt d = (case opt of None \<Rightarrow> d | Some v \<Rightarrow> v)"

definition param_or :: "Sequence \<Rightarrow> nat \<Rightarrow> Parameter \<Rightarrow> error + Parameter" where
  "param_or s i defaultValue =
     (case param_opt s i of
        Inl e \<Rightarrow> Inl e
      | Inr opt \<Rightarrow> Inr (value_or opt defaultValue))"


section \<open>Lines and the grid (\<^verbatim>\<open>Grid.h\<close>)\<close>

text \<open>
  Modelled from the spec: \<^verbatim>\<open>Coordinate\<close> and \<^verbatim>\<open>crispy::Size\<close> (\<^verbatim>\<open>terminal/Coordinate.h\<close>
  and \<^verbatim>\<open>crispy/size.h\<close> are outside the files embedded here): a coordinate is
  \<open>{row, column}\<close>, a size is \<open>{width, height}\<close>, all of them \<^verbatim>\<open>int\<close>.
\<close>

record Coordinate =
  row :: int
  column :: int

record Size =
  width :: int
  height :: int

text \<open>The members of \<^verbatim>\<open>class Line\<close>: the cells and the flag bits.\<close>

record Line =
  buffer_m :: "Cell list"
  flags_m :: "32 word"

text \<open>\<^verbatim>\<open>Line::size()\<close> and \<^verbatim>\<open>Line::operator[]\<close>, whose index arrives as a \<^verbatim>\<open>size_t\<close>.\<close>

definition Line_size :: "Line \<Rightarrow> int" where
  "Line_size l = int (length (buffer_m l))"

definition Line_index :: "Line \<Rightarrow> int \<Rightarrow> error + Cell" where
  "Line_index l i = (if 0 \<le> i then vec_at (buffer_m l) (nat i) else Inl OutOfRange)"

record Grid =
  screenSize_m :: Size
  reflowOnResize_m :: bool
  maxHistoryLineCount_m :: "int option"
  lines_m :: "Line list"

text \<open>
  \<^verbatim>\<open>*next(lines_.begin(), n)\<close> and \<^verbatim>\<open>*next(lines_.rbegin(), n)\<close> on the deque of lines:
  the \<open>n\<close>-th line from the front, respectively from the back.
\<close>

definition next_begin :: "Line list \<Rightarrow> int \<Rightarrow> error + Line" where
  "next_begin ls n = (if 0 \<le> n then vec_at ls (nat n) else Inl OutOfRange)"

definition next_rbegin :: "Line list \<Rightarrow> int \<Rightarrow> error + Line" where
  "next_rbegin ls n = (if 0 \<le> n then vec_at (rev ls) (nat n) else Inl OutOfRange)"

text \<open>
  The range of the lines from position \<open>start\<close> to position \<open>stop\<close> of the deque; both
  iterators have to lie within the deque, the second not before the first.
\<close>

definition lines_range :: "Line list \<Rightarrow> int \<Rightarrow> int \<Rightarrow> error + Line list" where
  "lines_range ls start stop =
     (if 0 \<le> start \<and> start \<le> stop \<and> stop \<le> int (length ls)
      then Inr (take (nat (stop - start)) (drop (nat start) ls))
      else Inl OutOfRange)"

definition historyLineCount :: "Grid \<Rightarrow> int" where
  "historyLineCount g = int (length (lines_m g)) - height (screenSize_m g)"

definition absoluteLineAt :: "Grid \<Rightarrow> int \<Rightarrow> error + Line" where
  "absoluteLineAt g line =
     (if \<not> ascending 0 line (int (length (lines_m g)) - 1) then Inl AssertionFailed
      else next_begin (lines_m g) line)"

definition lineAt :: "Grid \<Rightarrow> int \<Rightarrow> error + Line" where
  "lineAt g line =
     (if \<not> ascending (1 - historyLineCount g) line (height (screenSize_m g))
      then Inl AssertionFailed
      else next_begin (lines_m g) (historyLineCount g + line - 1))"

definition toAbsoluteLine :: "Grid \<Rightarrow> int \<Rightarrow> int" where
  "toAbsoluteLine g relativeLine = wrap32 (wrap32 (historyLineCount g + relativeLine) - 1)"

definition toRelativeLine :: "Grid \<Rightarrow> int \<Rightarrow> int" where
  "toRelativeLine g absoluteLine = wrap32 (absoluteLine - historyLineCount g)"

text \<open>\<^verbatim>\<open>Grid::at(Coordinate const&)\<close>.\<close>

definition at :: "Grid \<Rightarrow> Coordinate \<Rightarrow> error + Cell" where
  "at g coord =
     (if \<not> ascending (1 - historyLineCount g) (row coord) (height (screenSize_m g))
      then Inl AssertionFailed
      else if \<not> ascending 1 (column coord) (width (screenSize_m g))
      then Inl AssertionFailed
      else if row coord > 0
      then (case next_rbegin (lines_m g) (height (screenSize_m g) - row coord) of
              Inl e \<Rightarrow> Inl e
            | Inr l \<Rightarrow> Line_index l (column coord - 1))
      else (case next_begin (lines_m g) (historyLineCount g + row coord - 1) of
              Inl e \<Rightarrow> Inl e
            | Inr l \<Rightarrow> Line_index l (column coord - 1)))"

text \<open>
  \<^verbatim>\<open>Grid::pageAtScrollOffset(std::optional<int>) const\<close>: the assertion looks at
  \<^verbatim>\<open>value_or(0)\<close>, the range starts at \<^verbatim>\<open>value_or(historyLineCount())\<close> and holds
  \<^verbatim>\<open>screenSize_.height\<close> lines.
\<close>

definition pageAtScrollOffset :: "Grid \<Rightarrow> int option \<Rightarrow> error + Line list" where
  "pageAtScrollOffset g scrollOffset =
     (if \<not> ascending 0 (value_or scrollOffset 0) (historyLineCount g)
      then Inl AssertionFailed
      else (let start = value_or scrollOffset (historyLineCount g)
            in lines_range (lines_m g) start (start + height (screenSize_m g))))"

definition mainPage :: "Grid \<Rightarrow> error + Line list" where
  "mainPage g = pageAtScrollOffset g None"

definition scrollbackLines :: "Grid \<Rightarrow> error + Line list" where
  "scrollbackLines g = lines_range (lines_m g) 0 (historyLineCount g)"

text \<open>
  \<^verbatim>\<open>Grid::render\<close>.  The callback \<open>f\<close> receives a position and a cell and acts on a state of
  its own, which is threaded through the calls in the order in which the loops make them.
\<close>

fun render_columns ::
  "(Coordinate \<Rightarrow> Cell \<Rightarrow> 's \<Rightarrow> 's) \<Rightarrow> int \<Rightarrow> (int \<times> Cell) list \<Rightarrow> 's \<Rightarrow> 's" where
  "render_columns f rowNumber [] s = s"
| "render_columns f rowNumber ((colNumber, cell) # rest) s =
     render_columns f rowNumber rest (f \<lparr>row = rowNumber, column = colNumber\<rparr> cell s)"

fun render_padding ::
  "(Coordinate \<Rightarrow> Cell \<Rightarrow> 's \<Rightarrow> 's) \<Rightarrow> int \<Rightarrow> int list \<Rightarrow> 's \<Rightarrow> 's" where
  "render_padding f rowNumber [] s = s"
| "render_padding f rowNumber (colNumber # rest) s =
     render_padding f rowNumber rest (f \<lparr>row = rowNumber, column = colNumber\<rparr> Cell_empty s)"

fun render_rows ::
  "(Coordinate \<Rightarrow> Cell \<Rightarrow> 's \<Rightarrow> 's) \<Rightarrow> int \<Rightarrow> (int \<times> Line) list \<Rightarrow> 's \<Rightarrow> 's" where
  "render_rows f w [] s = s"
| "render_rows f w ((rowNumber, line) # rest) s =
     render_rows f w rest
       (render_padding f rowNumber
          (crispy_times (Line_size line + 1) (nat (max 0 (w - Line_size line))))
          (render_columns f rowNumber (crispy_indexed (buffer_m line) 1) s))"

definition render ::
  "(Coordinate \<Rightarrow> Cell \<Rightarrow> 's \<Rightarrow> 's) \<Rightarrow> Grid \<Rightarrow> int option \<Rightarrow> 's \<Rightarrow> error + 's" where
  "render f g scrollOffset s =
     (case pageAtScrollOffset g scrollOffset of
        Inl e \<Rightarrow> Inl e
      | Inr page \<Rightarrow> Inr (render_rows f (width (screenSize_m g)) (crispy_indexed page 1) s))"

text \<open>
  The calls the rendering of one row is described to make: one per cell of the line at the
  columns 1, 2, ... and then one with an empty cell per column from \<open>size + 1\<close> up to the
  width of the screen.  A list of calls is run by passing the state from each to the next.
\<close>

definition spec_row_calls :: "int \<Rightarrow> int \<Rightarrow> Line \<Rightarrow> (Coordinate \<times> Cell) list" where
  "spec_row_calls w r l =
     map (\<lambda>(c, cell). (\<lparr>row = r, column = c\<rparr>, cell)) (zip [1..Line_size l] (buffer_m l))
     @ map (\<lambda>c. (\<lparr>row = r, column = c\<rparr>, Cell_empty)) [Line_size l + 1..w]"

definition spec_page_calls :: "int \<Rightarrow> Line list \<Rightarrow> (Coordinate \<times> Cell) list" where
  "spec_page_calls w page =
     concat (map (\<lambda>(r, l). spec_row_calls w r l) (zip [1..int (length page)] page))"

definition run_calls :: "(Coordinate \<Rightarrow> Cell \<Rightarrow> 's \<Rightarrow> 's) \<Rightarrow> (Coordinate \<times> Cell) list \<Rightarrow> 's \<Rightarrow> 's" where
  "run_calls f calls s = foldl (\<lambda>st (pos, cell). f pos cell st) s calls"


section \<open>A small grid to compute with\<close>

text \<open>
  Four lines on a screen of two columns and two rows: two lines of scrollback above a main
  page whose last line holds one cell only.
\<close>

definition example_cell :: "char32_t \<Rightarrow> Cell" where
  "example_cell cp = Cell_empty\<lparr>codepoints := [cp]\<rparr>"

definition example_line :: "char32_t list \<Rightarrow> Line" where
  "example_line cps = \<lparr>buffer_m = map example_cell cps, flags_m = 0\<rparr>"

definition example_grid :: Grid where
  "example_grid =
     \<lparr>screenSize_m = \<lparr>width = 2, height = 2\<rparr>, reflowOnResize_m = False,
      maxHistoryLineCount_m = None,
      lines_m = [example_line [0x61, 0x62], example_line [0x63, 0x64],
                 example_line [0x65, 0x66], example_line [0x67]]\<rparr>"


section \<open>The example grid\<close>

lemma example_grid_lines:
  "lines_m example_grid =
     [example_line [0x61, 0x62], example_line [0x63, 0x64],
      example_line [0x65, 0x66], example_line [0x67]]"
  by (simp add: example_grid_def)

lemma example_grid_size:
  "width (screenSize_m example_grid) = 2" "height (screenSize_m example_grid) = 2"
  by (simp_all add: example_grid_def)

lemma example_grid_history: "historyLineCount example_grid = 2"
  by (simp add: historyLineCount_def example_grid_lines example_grid_size)


section \<open>Cells hold at most nine codepoints\<close>

lemma appendCharacter_result:
  "appendCharacter uw cp c =
     (0, c\<lparr>imageFragment := None,
            codepoints := (if length (codepoints c) < MaxCodepoints
                           then codepoints c @ [cp] else codepoints c)\<rparr>)"
  by (simp add: appendCharacter_def AllowWidthChange_def Let_def)

lemma apply_op_bounded:
  "length (codepoints c) \<le> MaxCodepoints \<Longrightarrow>
   length (codepoints (apply_op uw c op)) \<le> MaxCodepoints"
  by (cases op)
     (simp_all add: reset_def reset_hyperlink_def setImage_def setImage_hyperlink_def
        setCharacter_def setWidth_def setAttributes_def setHyperlink_def
        appendCharacter_result MaxCodepoints_def Let_def)

lemma construct_bounded: "length (codepoints (construct uw k)) \<le> 1"
  by (cases k) (simp_all add: Cell_new_def Cell_empty_def Let_def)

lemma foldl_apply_op_bounded:
  "length (codepoints c) \<le> MaxCodepoints \<Longrightarrow>
   length (codepoints (foldl (apply_op uw) c ops)) \<le> MaxCodepoints"
proof (induction ops arbitrary: c)
  case Nil
  then show ?case by simp
next
  case (Cons op ops)
  have "length (codepoints (apply_op uw c op)) \<le> MaxCodepoints"
    using Cons.prems by (rule apply_op_bounded)
  then show ?case using Cons.IH by simp
qed

lemma run_ops_bounded: "length (codepoints (run_ops uw k ops)) \<le> MaxCodepoints"
proof -
  have "length (codepoints (construct uw k)) \<le> MaxCodepoints"
    using construct_bounded [of uw k] by (simp add: MaxCodepoints_def)
  then show ?thesis unfolding run_ops_def by (rule foldl_apply_op_bounded)
qed

text \<open>
  C4: a cell never holds more than 9 codepoints.  \<open>appendCharacter\<close> on a cell with 9
  codepoints leaves them as they are and returns 0; both constructors and
  \<open>setCharacter\<close> leave at most one codepoint; every mutator keeps the bound, so every
  cell made by a constructor and any sequence of mutators satisfies it.  The defaulted
  copy and move operations reproduce a cell as it is and are not listed.
\<close>

theorem Cell_codepoints_bounded:
  "MaxCodepoints = 9
   \<and> (length (codepoints c) = 9 \<longrightarrow>
        codepoints (snd (appendCharacter uw cp c)) = codepoints c
        \<and> fst (appendCharacter uw cp c) = 0)
   \<and> length (codepoints (Cell_new uw cp attrib)) \<le> 1
   \<and> length (codepoints Cell_empty) \<le> 1
   \<and> length (codepoints (setCharacter uw cp c)) \<le> 1
   \<and> (length (codepoints c) \<le> 9 \<longrightarrow> length (codepoints (apply_op uw c op)) \<le> 9)
   \<and> length (codepoints (run_ops uw k ops)) \<le> 9"
proof -
  have m: "MaxCodepoints = 9" by (simp add: MaxCodepoints_def)
  have a: "length (codepoints c) = 9 \<longrightarrow>
        codepoints (snd (appendCharacter uw cp c)) = codepoints c
        \<and> fst (appendCharacter uw cp c) = 0"
    by (simp add: appendCharacter_result m)
  have n: "length (codepoints (Cell_new uw cp attrib)) \<le> 1"
    using construct_bounded [of uw "NewCell cp attrib"] by simp
  have e: "length (codepoints Cell_empty) \<le> 1"
    using construct_bounded [of uw NewEmptyCell] by simp
  have s: "length (codepoints (setCharacter uw cp c)) \<le> 1"
    by (simp add: setCharacter_def Let_def)
  have p: "length (codepoints c) \<le> 9 \<longrightarrow> length (codepoints (apply_op uw c op)) \<le> 9"
    using apply_op_bounded [of c uw op] by (simp add: m)
  have r: "length (codepoints (run_ops uw k ops)) \<le> 9"
    using run_ops_bounded [of uw k ops] by (simp add: m)
  from m a n e s p r show ?thesis by blast
qed

theorem Cell_codepoints_bounded_witness:
  "length (codepoints (Cell_empty\<lparr>codepoints := [1, 2, 3, 4, 5, 6, 7, 8, 9]\<rparr>)) = 9
   \<and> codepoints (snd (appendCharacter (\<lambda>_. 1) 0x301
        (Cell_empty\<lparr>codepoints := [1, 2, 3, 4, 5, 6, 7, 8, 9]\<rparr>))) = [1, 2, 3, 4, 5, 6, 7, 8, 9]
   \<and> fst (appendCharacter (\<lambda>_. 1) 0x301
        (Cell_empty\<lparr>codepoints := [1, 2, 3, 4, 5, 6, 7, 8, 9]\<rparr>)) = 0
   \<and> length (codepoints (apply_op (\<lambda>_. 1)
        (Cell_empty\<lparr>codepoints := [1, 2, 3, 4, 5, 6, 7, 8, 9]\<rparr>) (AppendCharacter 0x301))) \<le> 9"
  using Cell_codepoints_bounded [of "Cell_empty\<lparr>codepoints := [1, 2, 3, 4, 5, 6, 7, 8, 9]\<rparr>"
      "\<lambda>_. 1" "0x301" GraphicsAttributes_default "AppendCharacter 0x301" NewEmptyCell "[]"]
  by simp


section \<open>Appending a codepoint leaves the width alone\<close>

text \<open>
  C5: \<open>appendCharacter\<close> returns 0 and keeps the width for every codepoint, the variation
  selectors U+FE0E and U+FE0F among them; attributes and hyperlink stay, the image
  fragment is reset, and the codepoints grow by the new one while there is room.
\<close>

theorem appendCharacter_frame:
  "fst (appendCharacter uw cp c) = 0
   \<and> Cell_width (snd (appendCharacter uw cp c)) = Cell_width c
   \<and> width_m (snd (appendCharacter uw cp c)) = width_m c
   \<and> attributes (snd (appendCharacter uw cp c)) = attributes c
   \<and> hyperlink (snd (appendCharacter uw cp c)) = hyperlink c
   \<and> imageFragment (snd (appendCharacter uw cp c)) = None
   \<and> codepoints (snd (appendCharacter uw cp c)) =
       (if length (codepoints c) < 9 then codepoints c @ [cp] else codepoints c)
   \<and> fst (appendCharacter uw 0xFE0E c) = 0
   \<and> Cell_width (snd (appendCharacter uw 0xFE0E c)) = Cell_width c
   \<and> fst (appendCharacter uw 0xFE0F c) = 0
   \<and> Cell_width (snd (appendCharacter uw 0xFE0F c)) = Cell_width c"
  by (simp add: appendCharacter_result Cell_width_def MaxCodepoints_def)

theorem appendCharacter_frame_witness:
  "appendCharacter (\<lambda>_. 2) 0xFE0F (Cell_new (\<lambda>_. 1) 0x263A GraphicsAttributes_default)
     = (0, \<lparr>codepoints = [0x263A, 0xFE0F], width_m = 1,
            attributes = GraphicsAttributes_default, hyperlink = None,
            imageFragment = None\<rparr>)"
  using appendCharacter_frame [of "\<lambda>_. 2" "0xFE0F" "Cell_new (\<lambda>_. 1) 0x263A GraphicsAttributes_default"]
  by (simp add: appendCharacter_result Cell_new_def MaxCodepoints_def)


section \<open>Equality of cells\<close>

lemma codepoints_loop_equal:
  "codepoints a = codepoints b \<Longrightarrow> \<forall>i \<in> set idx. nat i < length (codepoints a) \<Longrightarrow>
   codepoints_loop a b idx = Inr True"
  by (induction idx) (simp_all add: codepoint_def vec_at_def)

lemma codepoints_loop_cong:
  assumes "codepoints a = codepoints a'" and "codepoints b = codepoints b'"
  shows "codepoints_loop a b idx = codepoints_loop a' b' idx"
proof -
  have "codepoint a = codepoint a'" and "codepoint b = codepoint b'"
    using assms by (simp_all add: codepoint_def fun_eq_iff)
  then show ?thesis
    by (induction idx) (simp_all split: sum.splits)
qed

lemma Cell_eq_cong:
  "codepoints a = codepoints a' \<Longrightarrow> attributes a = attributes a' \<Longrightarrow>
   codepoints b = codepoints b' \<Longrightarrow> attributes b = attributes b' \<Longrightarrow>
   Cell_eq a b = Cell_eq a' b'"
  by (simp add: Cell_eq_def codepointCount_def codepoints_loop_cong [of a a' b b'])

lemma Cell_eq_same_codepoints:
  assumes "codepoints a = codepoints b"
    and "GraphicsAttributes_eq (attributes a) (attributes b)"
  shows "Cell_eq a b = Inr True"
proof -
  have "\<forall>i \<in> set (crispy_times 0 (length (codepoints a))). nat i < length (codepoints a)"
    by (auto simp: crispy_times_def)
  then have "codepoints_loop a b (crispy_times 0 (length (codepoints a))) = Inr True"
    using assms(1) by (rule codepoints_loop_equal [rotated])
  then show ?thesis
    using assms by (simp add: Cell_eq_def codepointCount_def)
qed

text \<open>
  C10: two cells with the same number of codepoints, the same codepoint at every index and
  equal graphics attributes compare equal, whatever their widths; \<open>setWidth\<close> on either
  side, and any change of width, hyperlink and image fragment, leaves the result of the
  comparison as it is.
\<close>

theorem Cell_eq_ignores_width:
  "(codepointCount a = codepointCount b
      \<and> (\<forall>i < length (codepoints a). codepoint a i = codepoint b i)
      \<and> GraphicsAttributes_eq (attributes a) (attributes b)
    \<longrightarrow> Cell_eq a b = Inr True \<and> Cell_eq (setWidth w a) (setWidth w' b) = Inr True)
   \<and> Cell_eq (setWidth w a) b = Cell_eq a b
   \<and> Cell_eq a (setWidth w b) = Cell_eq a b
   \<and> Cell_eq (a\<lparr>width_m := v, hyperlink := h, imageFragment := f\<rparr>) b = Cell_eq a b
   \<and> Cell_eq a (b\<lparr>width_m := v, hyperlink := h, imageFragment := f\<rparr>) = Cell_eq a b"
proof -
  have main: "Cell_eq a b = Inr True \<and> Cell_eq (setWidth w a) (setWidth w' b) = Inr True"
    if count: "codepointCount a = codepointCount b"
      and pointwise: "\<forall>i < length (codepoints a). codepoint a i = codepoint b i"
      and attrs: "GraphicsAttributes_eq (attributes a) (attributes b)"
  proof -
    have len: "length (codepoints a) = length (codepoints b)"
      using count by (simp add: codepointCount_def)
    have "codepoints a ! i = codepoints b ! i" if "i < length (codepoints a)" for i
      using pointwise that len by (simp add: codepoint_def vec_at_def)
    with len have same: "codepoints a = codepoints b"
      by (simp add: nth_equalityI)
    have one: "Cell_eq a b = Inr True"
      using same attrs by (rule Cell_eq_same_codepoints)
    have "Cell_eq (setWidth w a) (setWidth w' b) = Cell_eq a b"
      by (rule Cell_eq_cong) (simp_all add: setWidth_def)
    with one show ?thesis by simp
  qed
  have l: "Cell_eq (setWidth w a) b = Cell_eq a b"
    by (rule Cell_eq_cong) (simp_all add: setWidth_def)
  have r: "Cell_eq a (setWidth w b) = Cell_eq a b"
    by (rule Cell_eq_cong) (simp_all add: setWidth_def)
  have l': "Cell_eq (a\<lparr>width_m := v, hyperlink := h, imageFragment := f\<rparr>) b = Cell_eq a b"
    by (rule Cell_eq_cong) simp_all
  have r': "Cell_eq a (b\<lparr>width_m := v, hyperlink := h, imageFragment := f\<rparr>) = Cell_eq a b"
    by (rule Cell_eq_cong) simp_all
  from main l r l' r' show ?thesis by blast
qed

theorem Cell_eq_ignores_width_witness:
  "Cell_eq (Cell_new (\<lambda>_. 1) 0x41 GraphicsAttributes_default)
           (setWidth 2 (Cell_new (\<lambda>_. 1) 0x41 GraphicsAttributes_default)) = Inr True
   \<and> Cell_width (Cell_new (\<lambda>_. 1) 0x41 GraphicsAttributes_default) = 1
   \<and> Cell_width (setWidth 2 (Cell_new (\<lambda>_. 1) 0x41 GraphicsAttributes_default)) = 2"
proof -
  let ?a = "Cell_new (\<lambda>_. 1) 0x41 GraphicsAttributes_default"
  let ?b = "setWidth 2 ?a"
  have c: "codepoints ?a = [0x41]" "codepoints ?b = [0x41]"
    by (simp_all add: Cell_new_def setWidth_def)
  have h: "codepointCount ?a = codepointCount ?b
      \<and> (\<forall>i < length (codepoints ?a). codepoint ?a i = codepoint ?b i)
      \<and> GraphicsAttributes_eq (attributes ?a) (attributes ?b)"
    by (simp add: c codepointCount_def codepoint_def)
       (simp add: Cell_new_def setWidth_def GraphicsAttributes_eq_def)
  have w: "Cell_width ?a = 1" "Cell_width ?b = 2"
    by (simp_all add: Cell_new_def setWidth_def Cell_width_def)
  from h w Cell_eq_ignores_width [of ?a ?b] show ?thesis by blast
qed


section \<open>ANSI modes\<close>

lemma isValidAnsiMode_iff: "isValidAnsiMode n = (n = 2 \<or> n = 4 \<or> n = 12 \<or> n = 20)"
  by (simp add: isValidAnsiMode_def)

text \<open>
  C8: exactly four ANSI modes are recognised: \<open>isValidAnsiMode n\<close> holds if and only if
  \<open>n\<close> is 2, 4, 12 or 20, and the number of every \<open>AnsiMode\<close> is accepted.
\<close>

theorem isValidAnsiMode_exactly_four:
  "isValidAnsiMode n = (n \<in> {2, 4, 12, 20})
   \<and> {k. isValidAnsiMode k} = {2, 4, 12, 20}
   \<and> card {k. isValidAnsiMode k} = 4
   \<and> isValidAnsiMode (toAnsiModeNum m)"
proof -
  have s: "{k. isValidAnsiMode k} = {2, 4, 12, 20}"
    by (auto simp: isValidAnsiMode_iff)
  have c: "card {k. isValidAnsiMode k} = 4"
    by (simp add: s)
  have v: "isValidAnsiMode (toAnsiModeNum m)"
    by (cases m) (simp_all add: isValidAnsiMode_iff)
  from s c v show ?thesis by (simp add: isValidAnsiMode_iff)
qed

theorem isValidAnsiMode_exactly_four_witness:
  "isValidAnsiMode 12 \<and> \<not> isValidAnsiMode 3 \<and> isValidAnsiMode (toAnsiModeNum Insert)"
  using isValidAnsiMode_exactly_four [of 12 Insert] isValidAnsiMode_exactly_four [of 3 Insert]
  by simp


section \<open>DEC private modes\<close>

text \<open>
  \<open>isValidDECMode\<close> compares its argument with the values of the enumerators, which are
  the position of the enumerator in the declaration for all but the last six.
\<close>

lemma isValidDECMode_iff:
  "isValidDECMode n =
     ((0 \<le> n \<and> n \<le> 26) \<or> n = 1005 \<or> n = 1006 \<or> n = 1015 \<or> n = 1007 \<or> n = 2026 \<or> n = 2027)"
  unfolding isValidDECMode_def isValidDECMode_labels_def
  by (simp, arith)
lemma isValidDECMode_toDECModeNum:
  "isValidDECMode (toDECModeNum m) =
     (m \<in> {UseApplicationCursorKeys, DesignateCharsetUSASCII, Columns132, SmoothScroll,
            ReverseVideo, Origin, AutoWrap, MouseProtocolX10, ShowToolbar, BlinkingCursor,
            PrinterExtend, VisibleCursor, MouseExtended, MouseSGR, MouseURXVT,
            MouseAlternateScroll, BatchedRendering, TextReflow})"
  by (cases m) (simp_all add: isValidDECMode_iff)

text \<open>
  C3: every DEC mode number should pass the validity check, and nothing else.  The mode
  number of \<open>ShowScrollbar\<close> is 30, which \<open>isValidDECMode\<close> rejects, and
  \<open>isValidDECMode\<close> accepts 0, which is the number of no mode.
\<close>

theorem isValidDECMode_rejects_ShowScrollbar:
  "toDECModeNum ShowScrollbar = 30
   \<and> isValidDECMode (toDECModeNum ShowScrollbar) = False
   \<and> isValidDECMode 0 = True
   \<and> (\<forall>m. toDECModeNum m \<noteq> 0)"
proof -
  have n: "toDECModeNum m \<noteq> 0" for m
    by (cases m) simp_all
  then show ?thesis
    by (simp add: isValidDECMode_iff)
qed


section \<open>Parameters of a sequence\<close>

lemma param_opt_cases:
  "param_opt s i =
     (if length (parameters_m s) \<le> i then Inr None
      else case vec_at (parameters_m s ! i) 0 of
             Inl e \<Rightarrow> Inl e
           | Inr v \<Rightarrow> Inr (if v = 0 then None else Some v))"
  by (simp add: param_opt_def split: sum.splits)

lemma param_opt_empty_parameter:
  "i < length (parameters_m s) \<Longrightarrow> parameters_m s ! i = [] \<Longrightarrow>
   param_opt s i = Inl OutOfRange \<and> param_or s i d = Inl OutOfRange"
  by (simp add: param_or_def param_opt_def vec_at_def)

text \<open>
  With the single parameter 5 and the default 5, \<open>param_or\<close> returns the default although
  the index is in range and the parameter is not 0.  With a single parameter that holds no
  value, the index is in range and neither function returns: the read of
  \<^verbatim>\<open>parameters_[0][0]\<close> leaves the inner vector.
\<close>

theorem param_or_exactly_counterexample:
  "\<not> ((param_or ((Sequence_new CSI)\<lparr>parameters_m := [[5]]\<rparr>) 0 5 = Inr 5) =
        (length (parameters_m ((Sequence_new CSI)\<lparr>parameters_m := [[5]]\<rparr>)) \<le> 0
         \<or> parameters_m ((Sequence_new CSI)\<lparr>parameters_m := [[5]]\<rparr>) ! 0 ! 0 = 0))
   \<and> 0 < length (parameters_m ((Sequence_new CSI)\<lparr>parameters_m := [[]]\<rparr>))
   \<and> param_opt ((Sequence_new CSI)\<lparr>parameters_m := [[]]\<rparr>) 0 = Inl OutOfRange
   \<and> param_or ((Sequence_new CSI)\<lparr>parameters_m := [[]]\<rparr>) 0 5 = Inl OutOfRange"
  by (simp add: param_or_def param_opt_def vec_at_def value_or_def Sequence_new_def)

text \<open>
  C6 (amended): let the parameter at index \<open>i\<close> hold at least one value whenever \<open>i\<close> is
  in range.  Then \<open>param_opt\<close> is none exactly when \<open>i\<close> is out of range or the top-level
  parameter stored at \<open>i\<close> is 0, and is that parameter otherwise; \<open>param_or\<close> returns the
  default in those two cases and the stored parameter otherwise, so it returns the
  default exactly when \<open>i\<close> is out of range, the stored parameter is 0 or the stored
  parameter is the default itself.  When \<open>i\<close> is in range and the parameter holds no
  value, the read leaves the inner vector in both functions.
\<close>

theorem param_or_default:
  "((i < length (parameters_m s) \<longrightarrow> parameters_m s ! i \<noteq> []) \<longrightarrow>
      (param_opt s i = Inr None) =
        (length (parameters_m s) \<le> i \<or> parameters_m s ! i ! 0 = 0)
      \<and> param_opt s i =
          Inr (if length (parameters_m s) \<le> i \<or> parameters_m s ! i ! 0 = 0 then None
               else Some (parameters_m s ! i ! 0))
      \<and> param_or s i d =
          Inr (if length (parameters_m s) \<le> i \<or> parameters_m s ! i ! 0 = 0 then d
               else parameters_m s ! i ! 0)
      \<and> (param_or s i d = Inr d) =
          (length (parameters_m s) \<le> i \<or> parameters_m s ! i ! 0 = 0
           \<or> parameters_m s ! i ! 0 = d))
   \<and> (i < length (parameters_m s) \<and> parameters_m s ! i = [] \<longrightarrow>
        param_opt s i = Inl OutOfRange \<and> param_or s i d = Inl OutOfRange)"
proof -
  have present: "(param_opt s i = Inr None) =
        (length (parameters_m s) \<le> i \<or> parameters_m s ! i ! 0 = 0)
      \<and> param_opt s i =
          Inr (if length (parameters_m s) \<le> i \<or> parameters_m s ! i ! 0 = 0 then None
               else Some (parameters_m s ! i ! 0))
      \<and> param_or s i d =
          Inr (if length (parameters_m s) \<le> i \<or> parameters_m s ! i ! 0 = 0 then d
               else parameters_m s ! i ! 0)
      \<and> (param_or s i d = Inr d) =
          (length (parameters_m s) \<le> i \<or> parameters_m s ! i ! 0 = 0
           \<or> parameters_m s ! i ! 0 = d)"
    if p: "i < length (parameters_m s) \<longrightarrow> parameters_m s ! i \<noteq> []"
  proof (cases "i < length (parameters_m s)")
    case True
    with p have "vec_at (parameters_m s ! i) 0 = Inr (parameters_m s ! i ! 0)"
      by (simp add: vec_at_def)
    with True show ?thesis
      by (auto simp: param_or_def param_opt_cases value_or_def)
  next
    case False
    then show ?thesis
      by (simp add: param_or_def param_opt_cases value_or_def)
  qed
  have absent: "param_opt s i = Inl OutOfRange \<and> param_or s i d = Inl OutOfRange"
    if "i < length (parameters_m s) \<and> parameters_m s ! i = []"
    using that param_opt_empty_parameter [of i s d] by simp
  from present absent show ?thesis by blast
qed

theorem param_or_default_witness:
  "param_or ((Sequence_new CSI)\<lparr>parameters_m := [[0], [7, 3]]\<rparr>) 0 1 = Inr 1
   \<and> param_or ((Sequence_new CSI)\<lparr>parameters_m := [[0], [7, 3]]\<rparr>) 1 1 = Inr 7
   \<and> param_or ((Sequence_new CSI)\<lparr>parameters_m := [[0], [7, 3]]\<rparr>) 2 1 = Inr 1
   \<and> param_opt ((Sequence_new CSI)\<lparr>parameters_m := [[0], [7, 3]]\<rparr>) 0 = Inr None
   \<and> param_opt ((Sequence_new CSI)\<lparr>parameters_m := [[0], [7, 3]]\<rparr>) 1 = Inr (Some 7)
   \<and> param_opt ((Sequence_new CSI)\<lparr>parameters_m := [[0], []]\<rparr>) 1 = Inl OutOfRange"
  using param_or_default [of 0 "(Sequence_new CSI)\<lparr>parameters_m := [[0], [7, 3]]\<rparr>" 1]
    param_or_default [of 1 "(Sequence_new CSI)\<lparr>parameters_m := [[0], [7, 3]]\<rparr>" 1]
    param_or_default [of 2 "(Sequence_new CSI)\<lparr>parameters_m := [[0], [7, 3]]\<rparr>" 1]
    param_or_default [of 1 "(Sequence_new CSI)\<lparr>parameters_m := [[0], []]\<rparr>" 1]
  by (simp add: Sequence_new_def)

section \<open>The selector of an OSC sequence\<close>

text \<open>
  A parameter list of one parameter that holds no value: the count is 1, and the read of
  \<^verbatim>\<open>parameters_[0][0]\<close> leaves the inner vector.
\<close>

theorem selector_OSC_counterexample:
  "category_m ((Sequence_new OSC)\<lparr>parameters_m := [[]]\<rparr>) = OSC
   \<and> parameterCount ((Sequence_new OSC)\<lparr>parameters_m := [[]]\<rparr>) \<ge> 1
   \<and> selector ((Sequence_new OSC)\<lparr>parameters_m := [[]]\<rparr>) = Inl OutOfRange"
  by (simp add: Sequence_new_def parameterCount_def selector_def vec_at_def)

text \<open>
  C9 (amended): on an OSC sequence \<open>selector\<close> returns \<open>{OSC, 0, parameters[0][0], 0, 0}\<close>
  when there is a first parameter and it holds a value; it leaves the bounds of the
  parameter list when there is no parameter, as after \<open>clear\<close>, and the bounds of the
  first parameter when that holds no value.  It returns a selector exactly when both
  conditions hold.
\<close>

theorem selector_OSC_total:
  assumes "category_m s = OSC"
  shows "(parameterCount s \<ge> 1 \<and> parameters_m s ! 0 \<noteq> [] \<longrightarrow>
            selector s = Inr \<lparr>category = OSC, leader = 0, argc = parameters_m s ! 0 ! 0,
                              intermediate = 0, finalSymbol = 0\<rparr>)
         \<and> (parameterCount s = 0 \<longrightarrow> selector s = Inl OutOfRange)
         \<and> (parameterCount s \<ge> 1 \<and> parameters_m s ! 0 = [] \<longrightarrow> selector s = Inl OutOfRange)
         \<and> (\<exists>sel. selector s = Inr sel) =
             (parameterCount s \<ge> 1 \<and> parameters_m s ! 0 \<noteq> [])
         \<and> selector (setCategory OSC (clear s)) = Inl OutOfRange"
proof -
  have c: "selector (setCategory OSC (clear s)) = Inl OutOfRange"
    by (simp add: selector_def setCategory_def clear_def vec_at_def)
  show ?thesis
  proof (cases "parameters_m s")
    case Nil
    with assms c show ?thesis
      by (simp add: selector_def parameterCount_def vec_at_def)
  next
    case (Cons p ps)
    with assms c show ?thesis
      by (cases p) (simp_all add: selector_def parameterCount_def vec_at_def)
  qed
qed

theorem selector_OSC_total_witness:
  "selector ((Sequence_new OSC)\<lparr>parameters_m := [[52]]\<rparr>) =
     Inr \<lparr>category = OSC, leader = 0, argc = 52, intermediate = 0, finalSymbol = 0\<rparr>
   \<and> selector (Sequence_new OSC) = Inl OutOfRange"
  using selector_OSC_total [of "(Sequence_new OSC)\<lparr>parameters_m := [[52]]\<rparr>"]
    selector_OSC_total [of "Sequence_new OSC"]
  by (simp add: Sequence_new_def parameterCount_def)


section \<open>Relative and absolute line numbers\<close>

lemma wrap32_id: "- 2147483648 \<le> x \<Longrightarrow> x < 2147483648 \<Longrightarrow> wrap32 x = x"
  by (simp add: wrap32_def)

lemma wrap32_add_left: "wrap32 (wrap32 a + b) = wrap32 (a + b)"
proof -
  have "(wrap32 a + b + 2147483648) mod 4294967296 =
        ((a + 2147483648) mod 4294967296 + b) mod 4294967296"
    by (simp add: wrap32_def)
  also have "\<dots> = (a + 2147483648 + b) mod 4294967296"
    by (rule mod_add_left_eq)
  also have "\<dots> = (a + b + 2147483648) mod 4294967296"
    by (simp only: add.assoc add.commute [of 2147483648 b])
  finally show ?thesis
    by (simp add: wrap32_def [of "wrap32 a + b"] wrap32_def [of "a + b"])
qed

lemma wrap32_add_right: "wrap32 (a + wrap32 b) = wrap32 (a + b)"
  using wrap32_add_left [of b a] by (simp add: add.commute)

lemma wrap32_diff_left: "wrap32 (wrap32 a - b) = wrap32 (a - b)"
  using wrap32_add_left [of a "- b"] by simp

lemma toRelativeLine_toAbsoluteLine: "toRelativeLine g (toAbsoluteLine g r) = wrap32 (r - 1)"
proof -
  have "toRelativeLine g (toAbsoluteLine g r) =
        wrap32 (wrap32 (wrap32 (historyLineCount g + r) - 1) - historyLineCount g)"
    by (simp only: toRelativeLine_def toAbsoluteLine_def)
  also have "\<dots> = wrap32 (wrap32 (historyLineCount g + r) - 1 - historyLineCount g)"
    by (rule wrap32_diff_left)
  also have "\<dots> = wrap32 (wrap32 (historyLineCount g + r) - (1 + historyLineCount g))"
    by (simp only: diff_diff_eq)
  also have "\<dots> = wrap32 (historyLineCount g + r - (1 + historyLineCount g))"
    by (rule wrap32_diff_left)
  finally show ?thesis by simp
qed

lemma toAbsoluteLine_toRelativeLine: "toAbsoluteLine g (toRelativeLine g a) = wrap32 (a - 1)"
proof -
  have "toAbsoluteLine g (toRelativeLine g a) =
        wrap32 (wrap32 (historyLineCount g + wrap32 (a - historyLineCount g)) - 1)"
    by (simp only: toRelativeLine_def toAbsoluteLine_def)
  also have "\<dots> = wrap32 (historyLineCount g + wrap32 (a - historyLineCount g) - 1)"
    by (rule wrap32_diff_left)
  also have "\<dots> = wrap32 ((historyLineCount g - 1) + wrap32 (a - historyLineCount g))"
  proof -
    have "historyLineCount g + wrap32 (a - historyLineCount g) - 1 =
          (historyLineCount g - 1) + wrap32 (a - historyLineCount g)"
      by arith
    then show ?thesis by (rule arg_cong)
  qed
  also have "\<dots> = wrap32 ((historyLineCount g - 1) + (a - historyLineCount g))"
    by (rule wrap32_add_right)
  finally show ?thesis by simp
qed

lemma round_trips_lose_one:
  assumes "- 2147483647 \<le> x" and "x < 2147483648"
  shows "toRelativeLine g (toAbsoluteLine g x) = x - 1"
    and "toAbsoluteLine g (toRelativeLine g x) = x - 1"
  using assms by (simp_all add: toRelativeLine_toAbsoluteLine toAbsoluteLine_toRelativeLine wrap32_id)

text \<open>
  C2: the two conversions should be inverse to each other.  On the example grid, with two
  lines of scrollback, the relative line 1 is the absolute line 2, and the absolute line 2
  is converted to the relative line 0; either round trip ends one line above its start.
\<close>

theorem toRelativeLine_off_by_one:
  "historyLineCount example_grid = 2
   \<and> toAbsoluteLine example_grid 1 = 2
   \<and> toRelativeLine example_grid 2 = 0
   \<and> toRelativeLine example_grid (toAbsoluteLine example_grid 1) = 0
   \<and> toAbsoluteLine example_grid (toRelativeLine example_grid 2) = 1"
  by (simp add: toRelativeLine_def toAbsoluteLine_def wrap32_def historyLineCount_def
        example_grid_def)


section \<open>Reading a cell by its coordinate\<close>

lemma next_rbegin_next_begin:
  assumes "0 \<le> n" and "n < int (length ls)"
  shows "next_rbegin ls n = next_begin ls (int (length ls) - 1 - n)"
proof -
  have "rev ls ! nat n = ls ! (length ls - Suc (nat n))"
    using assms by (simp add: rev_nth)
  moreover have "nat (int (length ls) - 1 - n) = length ls - Suc (nat n)"
    using assms by simp
  moreover have "nat n < length ls" and "length ls - Suc (nat n) < length ls"
    using assms by simp_all
  ultimately show ?thesis
    using assms by (simp add: next_rbegin_def next_begin_def vec_at_def)
qed

lemma at_absolute:
  assumes r: "1 - historyLineCount g \<le> row coord" "row coord \<le> height (screenSize_m g)"
    and c: "1 \<le> column coord" "column coord \<le> width (screenSize_m g)"
  shows "at g coord =
           (case next_begin (lines_m g) (historyLineCount g + row coord - 1) of
              Inl e \<Rightarrow> Inl e
            | Inr l \<Rightarrow> Line_index l (column coord - 1))"
proof (cases "row coord > 0")
  case True
  have "next_rbegin (lines_m g) (height (screenSize_m g) - row coord) =
        next_begin (lines_m g)
          (int (length (lines_m g)) - 1 - (height (screenSize_m g) - row coord))"
    using r by (intro next_rbegin_next_begin) (simp_all add: historyLineCount_def)
  moreover have "int (length (lines_m g)) - 1 - (height (screenSize_m g) - row coord) =
        historyLineCount g + row coord - 1"
    by (simp add: historyLineCount_def)
  ultimately show ?thesis
    using True r c by (simp add: at_def ascending_def)
next
  case False
  then show ?thesis
    using r c by (simp add: at_def ascending_def)
qed

text \<open>
  The last line of the example grid holds one cell on a screen of two columns: the
  coordinate \<open>{2, 2}\<close> passes both assertions, and the read of column 2 leaves the line.
\<close>

theorem at_short_line_counterexample:
  "1 - historyLineCount example_grid \<le> 2 \<and> 2 \<le> height (screenSize_m example_grid)
   \<and> (1::int) \<le> 2 \<and> 2 \<le> width (screenSize_m example_grid)
   \<and> at example_grid \<lparr>row = 2, column = 2\<rparr> = Inl OutOfRange"
  by (simp add: at_def ascending_def example_grid_history example_grid_size
        example_grid_lines next_rbegin_def vec_at_def Line_index_def example_line_def)

text \<open>
  C1 (amended): for a coordinate within the asserted bounds, the absolute line
  \<open>historyLineCount + r - 1\<close> exists and \<open>at\<close> reads its column \<open>c\<close>, counted from 1: it
  returns that cell when the line holds at least \<open>c\<close> cells and leaves the line when it
  holds fewer.  On a grid whose main page exists (the history count is not negative) a row
  from 1 on is that row of the main page, and where the scrollback exists (the height is
  not negative) a row up to 0 counts the scrollback upwards from its last line.
\<close>

theorem at_reads_absolute_line:
  assumes "1 - historyLineCount g \<le> r" and "r \<le> height (screenSize_m g)"
    and "1 \<le> c" and "c \<le> width (screenSize_m g)"
  shows "\<exists>l. absoluteLineAt g (historyLineCount g + r - 1) = Inr l
           \<and> l = lines_m g ! nat (historyLineCount g + r - 1)
           \<and> nat (historyLineCount g + r - 1) < length (lines_m g)
           \<and> at g \<lparr>row = r, column = c\<rparr> = Line_index l (c - 1)
           \<and> (c \<le> Line_size l \<longrightarrow> at g \<lparr>row = r, column = c\<rparr> = Inr (buffer_m l ! nat (c - 1)))
           \<and> (Line_size l < c \<longrightarrow> at g \<lparr>row = r, column = c\<rparr> = Inl OutOfRange)
           \<and> (1 \<le> r \<and> 0 \<le> historyLineCount g \<longrightarrow>
                (\<exists>page. mainPage g = Inr page \<and> l = page ! nat (r - 1)))
           \<and> (r \<le> 0 \<and> 0 \<le> height (screenSize_m g) \<longrightarrow>
                (\<exists>hist. scrollbackLines g = Inr hist \<and> l = rev hist ! nat (- r)))"
proof -
  let ?a = "historyLineCount g + r - 1"
  let ?l = "lines_m g ! nat ?a"
  have lo: "0 \<le> ?a" using assms(1) by simp
  have hi: "?a < int (length (lines_m g))"
    using assms(2) by (simp add: historyLineCount_def)
  have nb: "next_begin (lines_m g) ?a = Inr ?l"
    using lo hi by (simp add: next_begin_def vec_at_def)
  have abs: "absoluteLineAt g ?a = Inr ?l"
    using lo hi nb by (simp add: absoluteLineAt_def ascending_def)
  have at: "at g \<lparr>row = r, column = c\<rparr> = Line_index ?l (c - 1)"
    using at_absolute [of g "\<lparr>row = r, column = c\<rparr>"] assms nb by simp
  have cell: "at g \<lparr>row = r, column = c\<rparr> = Inr (buffer_m ?l ! nat (c - 1))"
    if "c \<le> Line_size ?l"
    using that assms(3) at by (simp add: Line_index_def Line_size_def vec_at_def)
  have short: "at g \<lparr>row = r, column = c\<rparr> = Inl OutOfRange"
    if "Line_size ?l < c"
    using that assms(3) at by (simp add: Line_index_def Line_size_def vec_at_def)
  have main: "\<exists>page. mainPage g = Inr page \<and> ?l = page ! nat (r - 1)"
    if "1 \<le> r" "0 \<le> historyLineCount g"
  proof -
    have "0 \<le> height (screenSize_m g)" using that assms(2) by simp
    then have "mainPage g = Inr (take (nat (height (screenSize_m g)))
                  (drop (nat (historyLineCount g)) (lines_m g)))"
      using that(2)
      by (simp add: mainPage_def pageAtScrollOffset_def ascending_def value_or_def
            lines_range_def Let_def historyLineCount_def)
    moreover have "take (nat (height (screenSize_m g)))
                  (drop (nat (historyLineCount g)) (lines_m g)) ! nat (r - 1) = ?l"
    proof -
      have i: "nat (historyLineCount g) + nat (r - 1) = nat ?a"
        using that by simp
      have "nat (r - 1) < nat (height (screenSize_m g))"
        using that assms(2) by simp
      moreover have "nat (historyLineCount g) \<le> length (lines_m g)"
        using that assms(2) by (simp add: historyLineCount_def)
      ultimately have "take (nat (height (screenSize_m g)))
                  (drop (nat (historyLineCount g)) (lines_m g)) ! nat (r - 1) =
                 lines_m g ! (nat (historyLineCount g) + nat (r - 1))"
        by simp
      then show ?thesis by (simp only: i)
    qed
    ultimately show ?thesis by simp
  qed
  have sb: "\<exists>hist. scrollbackLines g = Inr hist \<and> ?l = rev hist ! nat (- r)"
    if "r \<le> 0" "0 \<le> height (screenSize_m g)"
  proof -
    have h: "0 \<le> historyLineCount g" "historyLineCount g \<le> int (length (lines_m g))"
      using that assms(1) by (simp_all add: historyLineCount_def)
    then have "scrollbackLines g = Inr (take (nat (historyLineCount g)) (lines_m g))"
      by (simp add: scrollbackLines_def lines_range_def)
    moreover have "rev (take (nat (historyLineCount g)) (lines_m g)) ! nat (- r) = ?l"
    proof -
      let ?hs = "take (nat (historyLineCount g)) (lines_m g)"
      have len: "length ?hs = nat (historyLineCount g)"
        using h by simp
      have n: "nat (- r) < length ?hs"
        using that assms(1) len by simp
      have "rev ?hs ! nat (- r) = ?hs ! (length ?hs - Suc (nat (- r)))"
        using n by (rule rev_nth)
      also have "length ?hs - Suc (nat (- r)) = nat ?a"
        using that assms(1) len by simp
      also have "?hs ! nat ?a = ?l"
        using that assms(1) by simp
      finally show ?thesis .
    qed
    ultimately show ?thesis by simp
  qed
  from abs lo hi at cell short main sb show ?thesis by simp
qed

theorem at_reads_absolute_line_witness:
  "1 - historyLineCount example_grid \<le> 0 \<and> 0 \<le> height (screenSize_m example_grid)
   \<and> (1::int) \<le> 2 \<and> 2 \<le> width (screenSize_m example_grid)
   \<and> absoluteLineAt example_grid 1 = Inr (example_line [0x63, 0x64])
   \<and> at example_grid \<lparr>row = 0, column = 2\<rparr> = Inr (example_cell 0x64)
   \<and> scrollbackLines example_grid =
       Inr [example_line [0x61, 0x62], example_line [0x63, 0x64]]"
proof -
  note h = example_grid_history
  have b: "1 - historyLineCount example_grid \<le> 0" "0 \<le> height (screenSize_m example_grid)"
    "(1::int) \<le> 2" "2 \<le> width (screenSize_m example_grid)"
    by (simp_all add: h example_grid_size)
  from at_reads_absolute_line [OF b]
  obtain l where l: "absoluteLineAt example_grid (historyLineCount example_grid + 0 - 1) = Inr l"
    "l = lines_m example_grid ! nat (historyLineCount example_grid + 0 - 1)"
    "2 \<le> Line_size l \<longrightarrow> at example_grid \<lparr>row = 0, column = 2\<rparr> = Inr (buffer_m l ! nat (2 - 1))"
    "0 \<le> (0::int) \<and> 0 \<le> height (screenSize_m example_grid) \<longrightarrow>
       (\<exists>hist. scrollbackLines example_grid = Inr hist \<and> l = rev hist ! nat (- 0))"
    by blast
  have l': "l = example_line [0x63, 0x64]"
    using l(2) by (simp add: h example_grid_lines)
  have a: "absoluteLineAt example_grid 1 = Inr (example_line [0x63, 0x64])"
    using l(1) by (simp add: h l')
  have c: "at example_grid \<lparr>row = 0, column = 2\<rparr> = Inr (example_cell 0x64)"
    using l(3) by (simp add: l' example_line_def Line_size_def)
  have s: "scrollbackLines example_grid =
       Inr [example_line [0x61, 0x62], example_line [0x63, 0x64]]"
    by (simp add: scrollbackLines_def lines_range_def h example_grid_lines)
  from b a c s show ?thesis by simp
qed


section \<open>Rendering\<close>

lemma run_calls_append: "run_calls f (xs @ ys) s = run_calls f ys (run_calls f xs s)"
  by (simp add: run_calls_def)

lemma render_columns_run:
  "render_columns f r xs s = run_calls f (map (\<lambda>(c, cell). (\<lparr>row = r, column = c\<rparr>, cell)) xs) s"
  by (induction xs arbitrary: s) (auto simp: run_calls_def)

lemma render_padding_run:
  "render_padding f r cs s = run_calls f (map (\<lambda>c. (\<lparr>row = r, column = c\<rparr>, Cell_empty)) cs) s"
  by (induction cs arbitrary: s) (auto simp: run_calls_def)

lemma upto_first: "[n..n + int (Suc k) - 1] = n # [n + 1..n + 1 + int k - 1]"
proof -
  have "[n..n + int k] = n # [n + 1..n + int k]"
    by (simp add: upto_rec1)
  then show ?thesis by simp
qed

lemma crispy_indexed_zip: "crispy_indexed xs n = zip [n..n + int (length xs) - 1] xs"
proof (induction xs arbitrary: n)
  case Nil
  then show ?case by simp
next
  case (Cons x xs)
  have "[n..n + int (length (x # xs)) - 1] = n # [n + 1..n + 1 + int (length xs) - 1]"
    using upto_first [of n "length xs"] by simp
  with Cons.IH [of "n + 1"] show ?case by simp
qed

lemma crispy_times_upto: "crispy_times start count = [start..start + int count - 1]"
proof (induction count)
  case 0
  then show ?case by (simp add: crispy_times_def)
next
  case (Suc count)
  have "[start..start + int (Suc count) - 1] = [start..start + int count - 1] @ [start + int count]"
    by (subst upto_rec2) simp_all
  with Suc show ?case by (simp add: crispy_times_def)
qed

lemma padding_columns:
  "crispy_times (Line_size l + 1) (nat (max 0 (w - Line_size l))) = [Line_size l + 1..w]"
proof (cases "Line_size l \<le> w")
  case True
  then show ?thesis by (simp add: crispy_times_upto)
next
  case False
  then show ?thesis by (simp add: crispy_times_upto)
qed

lemma render_row_run:
  "render_padding f r (crispy_times (Line_size l + 1) (nat (max 0 (w - Line_size l))))
     (render_columns f r (crispy_indexed (buffer_m l) 1) s) =
   run_calls f (spec_row_calls w r l) s"
proof -
  have "crispy_indexed (buffer_m l) 1 = zip [1..Line_size l] (buffer_m l)"
    by (simp add: crispy_indexed_zip Line_size_def)
  then show ?thesis
    by (simp only: padding_columns render_columns_run render_padding_run spec_row_calls_def
          run_calls_append)
qed

lemma render_rows_run:
  "render_rows f w (crispy_indexed page n) s =
   run_calls f (concat (map (\<lambda>(r, l). spec_row_calls w r l)
                  (zip [n..n + int (length page) - 1] page))) s"
proof (induction page arbitrary: n s)
  case Nil
  then show ?case by (simp add: run_calls_def)
next
  case (Cons l page)
  have u: "[n..n + int (length (l # page)) - 1] = n # [n + 1..n + 1 + int (length page) - 1]"
    using upto_first [of n "length page"] by simp
  show ?case
    by (simp only: u crispy_indexed.simps render_rows.simps render_row_run Cons.IH
          zip_Cons_Cons list.map concat.simps run_calls_append prod.case)
qed

lemma length_spec_row_calls:
  "int (length (spec_row_calls w r l)) = max (Line_size l) w"
  by (simp add: spec_row_calls_def Line_size_def)

lemma pageAtScrollOffset_page:
  assumes "ascending 0 (value_or scrollOffset 0) (historyLineCount g)"
    and "0 \<le> height (screenSize_m g)"
  shows "pageAtScrollOffset g scrollOffset =
           Inr (take (nat (height (screenSize_m g)))
                  (drop (nat (value_or scrollOffset (historyLineCount g))) (lines_m g)))"
  using assms
  by (cases scrollOffset)
     (simp_all add: pageAtScrollOffset_def ascending_def value_or_def lines_range_def
        Let_def historyLineCount_def)

text \<open>
  C7: for a scroll offset that passes the assertion, \<open>render\<close> runs through the rows of the
  selected page and makes, for each row, one call per cell of the line at the columns from
  1 on and then one call with an empty cell per column from \<open>size + 1\<close> to the width of
  the screen: \<open>max size width\<close> calls, which is the width for a line that is not longer.
\<close>

theorem render_pads_rows:
  assumes "ascending 0 (value_or scrollOffset 0) (historyLineCount g)"
    and "0 \<le> height (screenSize_m g)"
  shows "\<exists>page. pageAtScrollOffset g scrollOffset = Inr page
           \<and> int (length page) = height (screenSize_m g)
           \<and> render f g scrollOffset s =
               Inr (run_calls f (spec_page_calls (width (screenSize_m g)) page) s)
           \<and> render (\<lambda>pos cell calls. calls @ [(pos, cell)]) g scrollOffset [] =
               Inr (spec_page_calls (width (screenSize_m g)) page)
           \<and> (\<forall>r. \<forall>l \<in> set page.
                 int (length (spec_row_calls (width (screenSize_m g)) r l)) =
                   max (Line_size l) (width (screenSize_m g))
                 \<and> (Line_size l \<le> width (screenSize_m g) \<longrightarrow>
                      int (length (spec_row_calls (width (screenSize_m g)) r l)) =
                        width (screenSize_m g)))"
proof -
  let ?w = "width (screenSize_m g)"
  let ?page = "take (nat (height (screenSize_m g)))
                  (drop (nat (value_or scrollOffset (historyLineCount g))) (lines_m g))"
  have p: "pageAtScrollOffset g scrollOffset = Inr ?page"
    using assms by (rule pageAtScrollOffset_page)
  have "value_or scrollOffset (historyLineCount g) + height (screenSize_m g)
          \<le> int (length (lines_m g))"
    using assms(1) by (cases scrollOffset) (simp_all add: value_or_def ascending_def historyLineCount_def)
  moreover have "0 \<le> value_or scrollOffset (historyLineCount g)"
    using assms(1) by (cases scrollOffset) (simp_all add: value_or_def ascending_def)
  ultimately have len: "int (length ?page) = height (screenSize_m g)"
    using assms(2) by simp
  have run: "render f g scrollOffset s = Inr (run_calls f (spec_page_calls ?w ?page) s)"
    by (simp add: render_def p render_rows_run spec_page_calls_def)
  have "run_calls (\<lambda>pos cell calls. calls @ [(pos, cell)]) cs t = t @ cs" for cs t
    by (induction cs arbitrary: t) (auto simp: run_calls_def)
  then have trace: "render (\<lambda>pos cell calls. calls @ [(pos, cell)]) g scrollOffset [] =
      Inr (spec_page_calls ?w ?page)"
    by (simp add: render_def p render_rows_run spec_page_calls_def)
  have rows: "int (length (spec_row_calls ?w r l)) = max (Line_size l) ?w
      \<and> (Line_size l \<le> ?w \<longrightarrow> int (length (spec_row_calls ?w r l)) = ?w)" for r l
    by (simp add: length_spec_row_calls)
  show ?thesis
  proof (rule exI [of _ ?page], intro conjI allI ballI)
    show "pageAtScrollOffset g scrollOffset = Inr ?page" by (rule p)
    show "int (length ?page) = height (screenSize_m g)" by (rule len)
    show "render f g scrollOffset s = Inr (run_calls f (spec_page_calls ?w ?page) s)"
      by (rule run)
    show "render (\<lambda>pos cell calls. calls @ [(pos, cell)]) g scrollOffset [] =
      Inr (spec_page_calls ?w ?page)" by (rule trace)
    show "int (length (spec_row_calls ?w r l)) = max (Line_size l) ?w" for r l
      using rows [of r l] by (rule conjunct1)
    show "Line_size l \<le> ?w \<longrightarrow> int (length (spec_row_calls ?w r l)) = ?w" for r l
      using rows [of r l] by (rule conjunct2)
  qed
qed

theorem render_pads_rows_witness:
  "ascending 0 (value_or None 0) (historyLineCount example_grid)
   \<and> 0 \<le> height (screenSize_m example_grid)
   \<and> render (\<lambda>pos cell calls. calls @ [(pos, cell)]) example_grid None [] =
       Inr [(\<lparr>row = 1, column = 1\<rparr>, example_cell 0x65),
            (\<lparr>row = 1, column = 2\<rparr>, example_cell 0x66),
            (\<lparr>row = 2, column = 1\<rparr>, example_cell 0x67),
            (\<lparr>row = 2, column = 2\<rparr>, Cell_empty)]"
proof -
  note h = example_grid_history
  have b: "ascending 0 (value_or None 0) (historyLineCount example_grid)"
    "0 \<le> height (screenSize_m example_grid)"
    by (simp_all add: h ascending_def value_or_def example_grid_size)
  note w = example_grid_size(1)
  have p: "pageAtScrollOffset example_grid None = Inr [example_line [0x65, 0x66], example_line [0x67]]"
    by (simp add: pageAtScrollOffset_def ascending_def value_or_def h lines_range_def
          example_grid_lines example_grid_size)
  from render_pads_rows [OF b, of "\<lambda>pos cell calls. calls @ [(pos, cell)]" "[]"]
  obtain page where page: "pageAtScrollOffset example_grid None = Inr page"
    "render (\<lambda>pos cell calls. calls @ [(pos, cell)]) example_grid None [] =
       Inr (spec_page_calls (width (screenSize_m example_grid)) page)"
    by blast
  have "page = [example_line [0x65, 0x66], example_line [0x67]]"
    using page(1) p by simp
  moreover have "[1..2] = [1, 2::int]" "[1..1] = [1::int]" "[3..2] = ([]::int list)" "[2..2] = [2::int]"
    by (simp_all add: upto_rec1)
  ultimately have "spec_page_calls 2 page =
      [(\<lparr>row = 1, column = 1\<rparr>, example_cell 0x65),
            (\<lparr>row = 1, column = 2\<rparr>, example_cell 0x66),
            (\<lparr>row = 2, column = 1\<rparr>, example_cell 0x67),
            (\<lparr>row = 2, column = 2\<rparr>, Cell_empty)]"
    by (simp add: spec_page_calls_def spec_row_calls_def example_line_def Line_size_def)
  with page(2) b show ?thesis by (simp add: w)
qed

end
